theory Spec2Isabelle
  imports Main
begin

section \<open>Values\<close>

text \<open>
  Record values arrive untyped from the JSON parser.  A Python \<open>dict\<close> keeps its keys in
  insertion order and holds each key once, so an object is an association list that is
  only built with \<open>dict_set\<close>.  A float is kept opaque (mantissa and exponent): no
  function below computes with one.
\<close>

datatype json =
    JNull
  | JBool bool
  | JInt int
  | JFloat int int
  | JStr string
  | JList "json list"
  | JDict "(string \<times> json) list"

type_synonym pydict = "(string \<times> json) list"

text \<open>\<open>d[k] = v\<close>: an existing key keeps its position, a new key goes last.\<close>

fun dict_set :: "pydict \<Rightarrow> string \<Rightarrow> json \<Rightarrow> pydict" where
  "dict_set [] k v = [(k, v)]"
| "dict_set ((k', v') # d) k v = (if k' = k then (k, v) # d else (k', v') # dict_set d k v)"

text \<open>\<open>d.get(k)\<close>: \<open>None\<close> for a missing key.\<close>

definition dict_get :: "pydict \<Rightarrow> string \<Rightarrow> json option" where
  "dict_get d k = map_of d k"

section \<open>Errors\<close>

text \<open>
  A RECORD line of the tap, as the stream buffer reads it: \<open>record_message['record']\<close>,
  \<open>record_message.get('version')\<close> (\<open>None\<close> when the key is missing), and the optional
  \<open>time_extracted\<close> and \<open>sequence\<close>.  Versions and sequences are integers.
\<close>

record record_message =
  rm_record :: json
  rm_version :: "int option"
  rm_time_extracted :: "string option"
  rm_sequence :: "int option"

text \<open>A \<open>jsonschema.ValidationError\<close>, with its message.\<close>

datatype validation_error = ValidationError string

text \<open>
  The exceptions the modelled code raises (\<open>Exception\<close> is a plain \<open>Exception(message)\<close>,
  \<open>DriverError\<close> whatever the database driver raises).  \<open>SingerStreamError\<close> carries the threshold its
  message is formatted with and the list of invalid records (its second argument);
  \<open>PostgresError\<close> carries its message and, when it wraps one, the original exception.
\<close>

datatype error =
    SingerStreamError int "(validation_error \<times> record_message) list"
  | ZeroDivisionError
  | TypeError
  | KeyError string
  | IndexError
  | ValueError
  | AttributeError
  | RecursionError
  | DriverError string
  | Exception string
  | PostgresError string "error option"

section \<open>The stream buffer (singer\_stream.py)\<close>

definition SINGER_SEQUENCE :: string where "SINGER_SEQUENCE = ''_sdc_sequence''"
definition SINGER_PK :: string where "SINGER_PK = ''_sdc_primary_key''"
definition SINGER_SOURCE_PK_PREFIX :: string where "SINGER_SOURCE_PK_PREFIX = ''_sdc_source_key_''"

definition DEFAULT__MAX_ROWS :: int where "DEFAULT__MAX_ROWS = 200000"
definition DEFAULT__MAX_BUFFER_SIZE :: int where "DEFAULT__MAX_BUFFER_SIZE = 104857600"

text \<open>
  What the buffer writes to \<open>LOGGER.debug\<close>, each line with the values it is formatted
  with: the stream, then the numbers in the order of the format string.
\<close>

datatype log_event =
    LogCreated string int int
  | LogDroppingRecords string int "int option" int
  | LogRowsFilled string int int
  | LogBytesFilled string int int
  | LogVersionMismatch string "int option" "int option"
  | LogFlushing string

text \<open>
  The fields of a \<open>BufferedSingerStream\<close>.  \<open>validator\<close> stands for
  \<open>self.validator.validate\<close>: \<open>None\<close> when the record is valid, the
  \<open>ValidationError\<close> it raises otherwise.  \<open>size_bytes\<close> is the private \<open>__size\<close>
  (renamed: \<open>size\<close> is a constant of HOL); \<open>logged\<close> is the output of the module's logger,
  threaded with the object.
\<close>

record stream_buffer =
  stream :: string
  key_properties :: "string list"
  use_uuid_pk :: bool
  validator :: "json \<Rightarrow> validation_error option"
  invalid_records :: "(validation_error \<times> record_message) list"
  max_rows :: int
  max_buffer_size :: int
  invalid_records_detect :: bool
  invalid_records_threshold :: int
  buffer :: "record_message list"
  count :: int
  size_bytes :: int
  lifetime_max_version :: "int option"
  debug_reporting_interval :: int
  logged :: "log_event list"

text \<open>
  \<open>__init__\<close>, with the schema already turned into its validator and \<open>update_schema\<close>
  written out for the key properties.  \<open>x or DEFAULT\<close> replaces \<open>None\<close> and \<open>0\<close>.
  \<open>math.ceil(self.max_rows / 10.0)\<close> is computed in floating point there; it is the
  integer ceiling below for every \<open>max_rows\<close> of less than fifteen digits.
\<close>

definition or_default :: "int option \<Rightarrow> int \<Rightarrow> int" where
  "or_default x d = (case x of None \<Rightarrow> d | Some n \<Rightarrow> if n = 0 then d else n)"

definition BufferedSingerStream_init ::
  "string \<Rightarrow> (json \<Rightarrow> validation_error option) \<Rightarrow> string list \<Rightarrow> bool option \<Rightarrow> int option
     \<Rightarrow> int option \<Rightarrow> int option \<Rightarrow> stream_buffer" where
  "BufferedSingerStream_init name validate keys detect threshold rows bytes =
     (let mr = or_default rows DEFAULT__MAX_ROWS;
          mb = or_default bytes DEFAULT__MAX_BUFFER_SIZE
      in \<lparr> stream = name,
           key_properties = (if length keys = 0 then [SINGER_PK] else keys),
           use_uuid_pk = (length keys = 0),
           validator = validate,
           invalid_records = [],
           max_rows = mr,
           max_buffer_size = mb,
           invalid_records_detect = (case detect of None \<Rightarrow> True | Some b \<Rightarrow> b),
           invalid_records_threshold = (case threshold of None \<Rightarrow> 0 | Some t \<Rightarrow> t),
           buffer = [],
           count = 0,
           size_bytes = 0,
           lifetime_max_version = None,
           debug_reporting_interval = - ((- mr) div 10),
           logged = [LogCreated name mr mb] \<rparr>)"

text \<open>
  The property \<open>buffer_full\<close>.  Each debug line divides by the ceiling it reports
  (\<open>self.__count / self.max_rows\<close>, \<open>self.__size / self.max_buffer_size\<close>) before the
  \<open>return True\<close>, so a ceiling of zero raises there; the text of the line itself is not
  kept, the property being read-only.
\<close>

definition buffer_full :: "stream_buffer \<Rightarrow> error + bool" where
  "buffer_full s =
     (if count s \<ge> max_rows s then
        (if max_rows s = 0 then Inl ZeroDivisionError else Inr True)
      else if count s > 0 then
        (if size_bytes s \<ge> max_buffer_size s then
           (if max_buffer_size s = 0 then Inl ZeroDivisionError else Inr True)
         else Inr False)
      else Inr False)"

definition flush_buffer :: "stream_buffer \<Rightarrow> stream_buffer" where
  "flush_buffer s =
     s\<lparr> logged := logged s @ [LogFlushing (stream s)], buffer := [], size_bytes := 0, count := 0 \<rparr>"

text \<open>\<open>__update_version\<close>: it returns \<open>None\<close> on every path, so only the object is returned.\<close>

definition update_version :: "stream_buffer \<Rightarrow> int option \<Rightarrow> stream_buffer" where
  "update_version s version =
     (case version of
        None \<Rightarrow> s
      | Some v \<Rightarrow>
          (if (case lifetime_max_version s of None \<Rightarrow> False | Some l \<Rightarrow> l \<ge> v) then s
           else
             (let s1 = (if count s \<noteq> 0
                        then s\<lparr> logged := logged s @
                               [LogDroppingRecords (stream s) (count s) (lifetime_max_version s) v] \<rparr>
                        else s)
              in (flush_buffer s1)\<lparr> lifetime_max_version := Some v \<rparr>)))"

text \<open>
  \<open>_debug_report_on_buffer_sizes\<close>.  Python's \<open>%\<close> on integers is the floored \<open>mod\<close> of
  HOL and raises for a zero divisor; the two format calls divide as in \<open>buffer_full\<close>.
\<close>

definition debug_report_on_buffer_sizes :: "stream_buffer \<Rightarrow> stream_buffer \<times> error option" where
  "debug_report_on_buffer_sizes s =
     (if debug_reporting_interval s = 0 then (s, Some ZeroDivisionError)
      else if count s mod debug_reporting_interval s = 0 then
        (if max_rows s = 0 then (s, Some ZeroDivisionError)
         else
           (let s1 = s\<lparr> logged := logged s @ [LogRowsFilled (stream s) (count s) (max_rows s)] \<rparr>
            in if max_buffer_size s1 = 0 then (s1, Some ZeroDivisionError)
               else (s1\<lparr> logged := logged s1 @
                           [LogBytesFilled (stream s1) (size_bytes s1) (max_buffer_size s1)] \<rparr>, None)))
      else (s, None))"

text \<open>
  \<open>add_record_message\<close>.  The object is mutated in place, so the state is returned on
  every path, with the exception raised (if any) beside it.  \<open>get_size\<close> is the memory
  estimate of \<open>pysize\<close>, taken as a parameter.
\<close>

definition add_record_message ::
  "(record_message \<Rightarrow> int) \<Rightarrow> stream_buffer \<Rightarrow> record_message \<Rightarrow> stream_buffer \<times> error option" where
  "add_record_message get_size s record_message =
     (let s1 = update_version s (rm_version record_message)
      in if lifetime_max_version s1 \<noteq> rm_version record_message then
           (s1\<lparr> logged := logged s1 @
                  [LogVersionMismatch (stream s1) (lifetime_max_version s1) (rm_version record_message)] \<rparr>,
            None)
         else
           (case validator s1 (rm_record record_message) of
              None \<Rightarrow>
                debug_report_on_buffer_sizes
                  (s1\<lparr> buffer := buffer s1 @ [record_message],
                       size_bytes := size_bytes s1 + get_size record_message,
                       count := count s1 + 1 \<rparr>)
            | Some err \<Rightarrow>
                (let s2 = s1\<lparr> invalid_records := invalid_records s1 @ [(err, record_message)] \<rparr>
                 in if invalid_records_detect s2
                       \<and> int (length (invalid_records s2)) \<ge> invalid_records_threshold s2
                    then (s2, Some (SingerStreamError (invalid_records_threshold s2) (invalid_records s2)))
                    else debug_report_on_buffer_sizes s2)))"

text \<open>
  Consecutive calls \<open>add_record_message(m1); add_record_message(m2); ...\<close> on one buffer:
  an exception ends the sequence, as it ends the caller's loop over the input lines.
\<close>

fun add_record_messages ::
  "(record_message \<Rightarrow> int) \<Rightarrow> stream_buffer \<Rightarrow> record_message list \<Rightarrow> stream_buffer \<times> error option" where
  "add_record_messages get_size s [] = (s, None)"
| "add_record_messages get_size s (m # ms) =
     (case add_record_message get_size s m of
        (s', Some e) \<Rightarrow> (s', Some e)
      | (s', None) \<Rightarrow> add_record_messages get_size s' ms)"

section \<open>The record denester (sql\_base.py, postgres.py)\<close>

text \<open>
  What the denester asks of a value it is handed, for each Python type the JSON parser
  produces: \<open>record[key]\<close> and \<open>record[key] = value\<close> with a string key (a \<open>TypeError\<close>
  on anything but a \<open>dict\<close>), \<open>key in record\<close> (a key of a \<open>dict\<close>, an element of a
  \<open>list\<close>, a substring of a \<open>str\<close>, a \<open>TypeError\<close> otherwise) and \<open>record.items()\<close>
  (an \<open>AttributeError\<close> on anything but a \<open>dict\<close>).
\<close>

definition py_getitem :: "json \<Rightarrow> string \<Rightarrow> error + json" where
  "py_getitem record key =
     (case record of
        JDict d \<Rightarrow> (case map_of d key of None \<Rightarrow> Inl (KeyError key) | Some v \<Rightarrow> Inr v)
      | _ \<Rightarrow> Inl TypeError)"

definition py_setitem :: "json \<Rightarrow> string \<Rightarrow> json \<Rightarrow> error + json" where
  "py_setitem record key v =
     (case record of JDict d \<Rightarrow> Inr (JDict (dict_set d key v)) | _ \<Rightarrow> Inl TypeError)"

fun str_contains :: "string \<Rightarrow> string \<Rightarrow> bool" where
  "str_contains [] sub = (sub = [])"
| "str_contains (c # s) sub = (take (length sub) (c # s) = sub \<or> str_contains s sub)"

definition py_contains :: "string \<Rightarrow> json \<Rightarrow> error + bool" where
  "py_contains key record =
     (case record of
        JDict d \<Rightarrow> Inr (key \<in> set (map fst d))
      | JList xs \<Rightarrow> Inr (JStr key \<in> set xs)
      | JStr s \<Rightarrow> Inr (str_contains s key)
      | _ \<Rightarrow> Inl TypeError)"

definition py_items :: "json \<Rightarrow> error + pydict" where
  "py_items record = (case record of JDict d \<Rightarrow> Inr d | _ \<Rightarrow> Inl AttributeError)"

text \<open>\<open>str(n)\<close> for an integer, and \<open>SINGER_LEVEL.format(level)\<close>.\<close>

fun str_nat :: "nat \<Rightarrow> string" where
  "str_nat n = (if n < 10 then [''0123456789'' ! n]
                else str_nat (n div 10) @ [''0123456789'' ! (n mod 10)])"

declare str_nat.simps [simp del]

definition str_int :: "int \<Rightarrow> string" where
  "str_int i = (if i < 0 then ''-'' @ str_nat (nat (- i)) else str_nat (nat i))"

definition SINGER_LEVEL :: "int \<Rightarrow> string" where
  "SINGER_LEVEL level = ''_sdc_level_'' @ str_int level @ ''_id''"

definition SEPARATOR :: string where "SEPARATOR = ''__''"

text \<open>
  \<open>records_map\<close>: table name to the rows denested so far.
  \<open>if table_name not in records_map: records_map[table_name] = []\<close> and the \<open>append\<close>.
\<close>

type_synonym records_map = "(string \<times> pydict list) list"

fun records_map_append :: "records_map \<Rightarrow> string \<Rightarrow> pydict \<Rightarrow> records_map" where
  "records_map_append [] t row = [(t, [row])]"
| "records_map_append ((t', rows) # m) t row =
     (if t' = t then (t', rows @ [row]) # m else (t', rows) # records_map_append m t row)"

text \<open>\<open>for key, value in record_pk_fks.items(): record[key] = value\<close>.\<close>

fun py_setitems :: "json \<Rightarrow> pydict \<Rightarrow> error + json" where
  "py_setitems record [] = Inr record"
| "py_setitems record ((key, v) # kvs) =
     (case py_setitem record key v of Inl e \<Rightarrow> Inl e | Inr record' \<Rightarrow> py_setitems record' kvs)"

text \<open>
  \<open>for key in key_properties: record_pk_fks[SINGER_SOURCE_PK_PREFIX + key] = record[key]\<close>,
  from the dictionary built so far.
\<close>

fun source_pk_fks :: "json \<Rightarrow> string list \<Rightarrow> pydict \<Rightarrow> error + pydict" where
  "source_pk_fks record [] fks = Inr fks"
| "source_pk_fks record (key # keys) fks =
     (case py_getitem record key of
        Inl e \<Rightarrow> Inl e
      | Inr v \<Rightarrow> source_pk_fks record keys (dict_set fks (SINGER_SOURCE_PK_PREFIX @ key) v))"

text \<open>
  The first half of the loop body of \<open>_denest_records\<close>: the record with the keys written
  into it, its \<open>record_pk_fks\<close> and the next \<open>row_index\<close>.  \<open>if pk_fks:\<close> is false for
  \<open>None\<close> and for the empty dictionary.
\<close>

definition record_pk_fks_of ::
  "json \<Rightarrow> string list \<Rightarrow> pydict option \<Rightarrow> int \<Rightarrow> int \<Rightarrow> error + (json \<times> pydict \<times> int)" where
  "record_pk_fks_of record key_props pk_fks level row_index =
     (if pk_fks \<noteq> None \<and> pk_fks \<noteq> Some [] then
        (let record_pk_fks = dict_set (the pk_fks) (SINGER_LEVEL level) (JInt row_index)
         in case py_setitems record record_pk_fks of
              Inl e \<Rightarrow> Inl e
            | Inr record' \<Rightarrow> Inr (record', record_pk_fks, row_index + 1))
      else
        (case source_pk_fks record key_props [] of
           Inl e \<Rightarrow> Inl e
         | Inr fks \<Rightarrow>
             (case py_contains SINGER_SEQUENCE record of
                Inl e \<Rightarrow> Inl e
              | Inr False \<Rightarrow> Inr (record, fks, row_index)
              | Inr True \<Rightarrow>
                  (case py_getitem record SINGER_SEQUENCE of
                     Inl e \<Rightarrow> Inl e
                   | Inr v \<Rightarrow> Inr (record, dict_set fks SINGER_SEQUENCE v, row_index)))))"

text \<open>
  \<open>if current_path: next_path = current_path + SEPARATOR + prop else: next_path = prop\<close>.
\<close>

definition next_path_of :: "string option \<Rightarrow> string \<Rightarrow> string" where
  "next_path_of current_path prop =
     (case current_path of
        None \<Rightarrow> prop
      | Some p \<Rightarrow> if p = [] then prop else p @ SEPARATOR @ prop)"

text \<open>
  \<open>_denest_records\<close>, \<open>_denest_record\<close> and \<open>_denest_subrecord\<close>, each with the loop it
  runs.  \<open>PostgresTarget.denest_records\<close>, \<open>denest_record\<close> and \<open>denest_subrecord\<close> are the
  same three functions line for line (with \<open>NESTED_SEPARATOR\<close> for \<open>SEPARATOR\<close>), so one
  model stands for both.

  The first argument is the number of call frames left before Python's recursion limit:
  every call takes one, and a call with none left raises \<open>RecursionError\<close>.

  The functions write into the records they are handed (\<open>record[key] = value\<close>) and into
  \<open>records_map\<close>, and what they wrote stays when an exception ends them.  So each returns
  its input as it stands afterwards (with the row being filled, for the two that fill
  one) and \<open>records_map\<close>, with the exception raised beside them (\<open>None\<close>: it returned).

  The recursive call in \<open>_denest_subrecord\<close> passes six arguments to a function of eight
  parameters, which raises \<open>TypeError\<close> before the callee runs.
\<close>

function (sequential) denest_records ::
    "nat \<Rightarrow> string \<Rightarrow> json list \<Rightarrow> records_map \<Rightarrow> string list \<Rightarrow> pydict option \<Rightarrow> int
       \<Rightarrow> json list \<times> records_map \<times> error option"
  and denest_records_loop ::
    "nat \<Rightarrow> string \<Rightarrow> json list \<Rightarrow> records_map \<Rightarrow> string list \<Rightarrow> pydict option \<Rightarrow> int \<Rightarrow> int
       \<Rightarrow> json list \<times> records_map \<times> error option"
  and denest_record ::
    "nat \<Rightarrow> string \<Rightarrow> string option \<Rightarrow> json \<Rightarrow> records_map \<Rightarrow> string list \<Rightarrow> pydict \<Rightarrow> int
       \<Rightarrow> json \<times> records_map \<times> error option"
  and denest_record_loop ::
    "nat \<Rightarrow> string \<Rightarrow> string option \<Rightarrow> pydict \<Rightarrow> pydict \<Rightarrow> records_map \<Rightarrow> string list \<Rightarrow> pydict
       \<Rightarrow> int \<Rightarrow> pydict \<times> pydict \<times> records_map \<times> error option"
  and denest_subrecord ::
    "nat \<Rightarrow> string \<Rightarrow> string \<Rightarrow> pydict \<Rightarrow> pydict \<Rightarrow> records_map \<Rightarrow> string list \<Rightarrow> pydict \<Rightarrow> int
       \<Rightarrow> pydict \<times> pydict \<times> records_map \<times> error option"
  and denest_subrecord_loop ::
    "nat \<Rightarrow> string \<Rightarrow> string \<Rightarrow> pydict \<Rightarrow> pydict \<Rightarrow> records_map \<Rightarrow> string list \<Rightarrow> pydict \<Rightarrow> int
       \<Rightarrow> pydict \<times> pydict \<times> records_map \<times> error option"
where
  "denest_records 0 table_name records rm key_props pk_fks level =
     (records, rm, Some RecursionError)"
| "denest_records (Suc n) table_name records rm key_props pk_fks level =
     denest_records_loop n table_name records rm key_props pk_fks level 0"
| "denest_records_loop n table_name [] rm key_props pk_fks level row_index = ([], rm, None)"
| "denest_records_loop n table_name (record # records) rm key_props pk_fks level row_index =
     (case record_pk_fks_of record key_props pk_fks level row_index of
        Inl e \<Rightarrow> (record # records, rm, Some e)
      | Inr (record1, record_pk_fks, row_index') \<Rightarrow>
          (case denest_record n table_name None record1 rm key_props record_pk_fks level of
             (record2, rm1, Some e) \<Rightarrow> (record2 # records, rm1, Some e)
           | (record2, rm1, None) \<Rightarrow>
               (case denest_records_loop n table_name records rm1 key_props pk_fks level
                       row_index' of
                  (records', rm2, err) \<Rightarrow> (record2 # records', rm2, err))))"
| "denest_record 0 table_name current_path record rm key_props pk_fks level =
     (record, rm, Some RecursionError)"
| "denest_record (Suc n) table_name current_path record rm key_props pk_fks level =
     (case py_items record of
        Inl e \<Rightarrow> (record, rm, Some e)
      | Inr items \<Rightarrow>
          (case denest_record_loop n table_name current_path items [] rm key_props pk_fks
                  level of
             (items', denested_record, rm1, Some e) \<Rightarrow> (JDict items', rm1, Some e)
           | (items', denested_record, rm1, None) \<Rightarrow>
               (JDict items', records_map_append rm1 table_name denested_record, None)))"
| "denest_record_loop n table_name current_path [] denested_record rm key_props pk_fks
     level = ([], denested_record, rm, None)"
| "denest_record_loop n table_name current_path ((prop, v) # items) denested_record rm
     key_props pk_fks level =
     (case
        (case v of
           JDict d \<Rightarrow>
             (case denest_subrecord n table_name (next_path_of current_path prop)
                     denested_record d rm key_props pk_fks level of
                (d', denested1, rm1, err) \<Rightarrow> (JDict d', denested1, rm1, err))
         | JList xs \<Rightarrow>
             (case denest_records n (table_name @ SEPARATOR @ next_path_of current_path prop)
                     xs rm key_props (Some pk_fks) (level + 1) of
                (xs', rm1, err) \<Rightarrow> (JList xs', denested_record, rm1, err))
         | JNull \<Rightarrow> (v, denested_record, rm, None)
         | _ \<Rightarrow> (v, dict_set denested_record (next_path_of current_path prop) v, rm, None))
      of
        (v', denested1, rm1, Some e) \<Rightarrow> ((prop, v') # items, denested1, rm1, Some e)
      | (v', denested1, rm1, None) \<Rightarrow>
          (case denest_record_loop n table_name current_path items denested1 rm1 key_props
                  pk_fks level of
             (items', denested2, rm2, err) \<Rightarrow> ((prop, v') # items', denested2, rm2, err)))"
| "denest_subrecord 0 table_name current_path parent_record record rm key_props pk_fks
     level = (record, parent_record, rm, Some RecursionError)"
| "denest_subrecord (Suc n) table_name current_path parent_record record rm key_props
     pk_fks level =
     denest_subrecord_loop n table_name current_path parent_record record rm key_props
       pk_fks level"
| "denest_subrecord_loop n table_name current_path parent_record [] rm key_props pk_fks
     level = ([], parent_record, rm, None)"
| "denest_subrecord_loop n table_name current_path parent_record ((prop, v) # items) rm
     key_props pk_fks level =
     (case
        (case v of
           JDict d \<Rightarrow> (v, parent_record, rm, Some TypeError)
         | JList xs \<Rightarrow>
             (case denest_records n (table_name @ SEPARATOR @ (current_path @ SEPARATOR @ prop))
                     xs rm key_props (Some pk_fks) (level + 1) of
                (xs', rm1, err) \<Rightarrow> (JList xs', parent_record, rm1, err))
         | _ \<Rightarrow> (v, dict_set parent_record (current_path @ SEPARATOR @ prop) v, rm, None))
      of
        (v', parent1, rm1, Some e) \<Rightarrow> ((prop, v') # items, parent1, rm1, Some e)
      | (v', parent1, rm1, None) \<Rightarrow>
          (case denest_subrecord_loop n table_name current_path parent1 items rm1 key_props
                  pk_fks level of
             (items', parent2, rm2, err) \<Rightarrow> ((prop, v') # items', parent2, rm2, err)))"
  by pat_completeness auto

termination
  by (relation "inv_image (less_than <*lex*> less_than <*lex*> less_than)
        (case_sum
           (case_sum (\<lambda>(n, t, records, r). (n, 0::nat, 0::nat))
              (case_sum (\<lambda>(n, t, records, r). (n, 1, length records))
                        (\<lambda>(n, t, r). (n, 0, 0))))
           (case_sum (\<lambda>(n, t, p, items, r). (n, 1, length items))
              (case_sum (\<lambda>(n, t, r). (n, 0, 0))
                        (\<lambda>(n, t, p, d, items, r). (n, 1, length items)))))")
     auto

text \<open>
  \<open>SQLInterface._get_streamed_table_records\<close>, and the same call in
  \<open>PostgresTarget.write_batch\<close>: an empty \<open>records_map\<close>, \<open>pk_fks=None\<close>, \<open>level=-1\<close>.
\<close>

definition get_streamed_table_records ::
  "nat \<Rightarrow> string \<Rightarrow> string list \<Rightarrow> json list \<Rightarrow> error + records_map" where
  "get_streamed_table_records depth root_table_name key_props records =
     (case denest_records depth root_table_name records [] key_props None (- 1) of
        (records', rm, Some e) \<Rightarrow> Inl e
      | (records', rm, None) \<Rightarrow> Inr rm)"

section \<open>The schema upserter (sql\_base.py)\<close>


















section \<open>The batch writer (postgres.py)\<close>
















section \<open>Example buffers\<close>

text \<open>
  A validator that requires the property \<open>id\<close>, a buffer for the stream \<open>users\<close> with every
  option at its default, the same buffer after a first record of version 10, and a buffer
  with \<open>invalid_records_threshold = 2\<close>.
\<close>

definition requires_id :: "json \<Rightarrow> validation_error option" where
  "requires_id r =
     (case r of
        JDict d \<Rightarrow> (if map_of d ''id'' = None then Some (ValidationError ''id is a required property'') else None)
      | _ \<Rightarrow> Some (ValidationError ''not of type object''))"

definition users_buffer :: stream_buffer where
  "users_buffer = BufferedSingerStream_init ''users'' requires_id [''id''] None None None None"

definition record_msg :: "json \<Rightarrow> int option \<Rightarrow> record_message" where
  "record_msg r v = \<lparr> rm_record = r, rm_version = v, rm_time_extracted = None, rm_sequence = None \<rparr>"

definition users_v10 :: stream_buffer where
  "users_v10 = fst (add_record_message (\<lambda>_. 64) users_buffer
                      (record_msg (JDict [(''id'', JInt 1)]) (Some 10)))"

definition strict_users :: stream_buffer where
  "strict_users = BufferedSingerStream_init ''users'' requires_id [''id''] (Some True) (Some 2) None None"

section \<open>An example target\<close>












section \<open>Example databases\<close>



section \<open>Properties of the stream buffer\<close>

lemmas stream_defs = BufferedSingerStream_init_def or_default_def DEFAULT__MAX_ROWS_def
  DEFAULT__MAX_BUFFER_SIZE_def SINGER_PK_def users_buffer_def record_msg_def requires_id_def Let_def

lemma users_v10_fields:
  "lifetime_max_version users_v10 = Some 10"
  "count users_v10 = 1"
  "size_bytes users_v10 = 64"
  "buffer users_v10 = [record_msg (JDict [(''id'', JInt 1)]) (Some 10)]"
  "invalid_records users_v10 = []"
  by (simp_all add: users_v10_def add_record_message_def update_version_def flush_buffer_def
      debug_report_on_buffer_sizes_def stream_defs)

lemma update_version_newer:
  assumes "lifetime_max_version s = None \<or> (\<exists>l. lifetime_max_version s = Some l \<and> l < v)"
  shows "update_version s (Some v) =
           s\<lparr> logged := logged s @
                  (if count s \<noteq> 0
                   then [LogDroppingRecords (stream s) (count s) (lifetime_max_version s) v]
                   else []) @ [LogFlushing (stream s)],
               buffer := [], size_bytes := 0, count := 0, lifetime_max_version := Some v \<rparr>"
  using assms by (auto simp: update_version_def flush_buffer_def)

lemma update_version_current:
  "lifetime_max_version s = Some l \<Longrightarrow> v \<le> l \<Longrightarrow> update_version s (Some v) = s"
  by (simp add: update_version_def)

lemma update_version_frame:
  "validator (update_version s ver) = validator s"
  "invalid_records (update_version s ver) = invalid_records s"
  "invalid_records_detect (update_version s ver) = invalid_records_detect s"
  "invalid_records_threshold (update_version s ver) = invalid_records_threshold s"
  "stream (update_version s ver) = stream s"
  "max_rows (update_version s ver) = max_rows s"
  "max_buffer_size (update_version s ver) = max_buffer_size s"
  "debug_reporting_interval (update_version s ver) = debug_reporting_interval s"
  by (simp_all add: update_version_def flush_buffer_def Let_def split: option.splits)

lemma debug_report_frame:
  "buffer (fst (debug_report_on_buffer_sizes s)) = buffer s"
  "count (fst (debug_report_on_buffer_sizes s)) = count s"
  "size_bytes (fst (debug_report_on_buffer_sizes s)) = size_bytes s"
  "invalid_records (fst (debug_report_on_buffer_sizes s)) = invalid_records s"
  "lifetime_max_version (fst (debug_report_on_buffer_sizes s)) = lifetime_max_version s"
  by (simp_all add: debug_report_on_buffer_sizes_def Let_def)

lemma debug_report_logged:
  "\<exists>rest. logged (fst (debug_report_on_buffer_sizes s)) = logged s @ rest"
  by (simp add: debug_report_on_buffer_sizes_def Let_def)

lemma debug_report_error:
  "snd (debug_report_on_buffer_sizes s) \<noteq> Some (SingerStreamError t p)"
  by (simp add: debug_report_on_buffer_sizes_def Let_def)

lemma add_record_message_current:
  assumes "lifetime_max_version (update_version s (rm_version m)) = rm_version m"
  shows "add_record_message get_size s m =
     (let s1 = update_version s (rm_version m)
      in case validator s (rm_record m) of
              None \<Rightarrow>
                debug_report_on_buffer_sizes
                  (s1\<lparr> buffer := buffer s1 @ [m],
                       size_bytes := size_bytes s1 + get_size m,
                       count := count s1 + 1 \<rparr>)
            | Some err \<Rightarrow>
                (let s2 = s1\<lparr> invalid_records := invalid_records s @ [(err, m)] \<rparr>
                 in if invalid_records_detect s
                       \<and> int (length (invalid_records s)) + 1 \<ge> invalid_records_threshold s
                    then (s2, Some (SingerStreamError (invalid_records_threshold s) (invalid_records s @ [(err, m)])))
                    else debug_report_on_buffer_sizes s2))"
  using assms
  by (auto simp: add_record_message_def Let_def update_version_frame split: option.splits)

lemma init_fields:
  "invalid_records (BufferedSingerStream_init n val k d t None None) = []"
  "lifetime_max_version (BufferedSingerStream_init n val k d t None None) = None"
  "validator (BufferedSingerStream_init n val k d t None None) = val"
  "count (BufferedSingerStream_init n val k d t None None) = 0"
  "max_rows (BufferedSingerStream_init n val k d t None None) = 200000"
  "max_buffer_size (BufferedSingerStream_init n val k d t None None) = 104857600"
  "debug_reporting_interval (BufferedSingerStream_init n val k d t None None) = 20000"
  "invalid_records_detect (BufferedSingerStream_init n val k (Some b) t None None) = b"
  "invalid_records_threshold (BufferedSingerStream_init n val k d (Some i) r bb) = i"
  "invalid_records_threshold (BufferedSingerStream_init n val k d None r bb) = 0"
  by (simp_all add: BufferedSingerStream_init_def or_default_def DEFAULT__MAX_ROWS_def
        DEFAULT__MAX_BUFFER_SIZE_def Let_def)

lemma update_version_fresh:
  "lifetime_max_version s = None \<Longrightarrow>
     lifetime_max_version (update_version s ver) = ver"
  by (simp add: update_version_def flush_buffer_def Let_def split: option.splits)

lemma update_version_count:
  "count s = 0 \<Longrightarrow> count (update_version s ver) = 0"
  by (simp add: update_version_def flush_buffer_def Let_def split: option.splits)

lemma update_version_same:
  "lifetime_max_version s = ver \<Longrightarrow> update_version s ver = s"
  by (simp add: update_version_def split: option.splits)

lemma first_invalid_tolerated:
  assumes "lifetime_max_version s = None" and "invalid_records s = []" and "count s = 0"
    and "invalid_records_threshold s = 2" and "validator s (rm_record m1) = Some e1"
    and "debug_reporting_interval s = 20000" and "max_rows s = 200000"
    and "max_buffer_size s = 104857600"
  shows "\<exists>s'. add_record_message get_size s m1 = (s', None)
           \<and> invalid_records s' = [(e1, m1)] \<and> lifetime_max_version s' = rm_version m1
           \<and> validator s' = validator s \<and> invalid_records_threshold s' = 2
           \<and> invalid_records_detect s' = invalid_records_detect s"
proof -
  let ?s1 = "update_version s (rm_version m1)"
  have cur: "lifetime_max_version ?s1 = rm_version m1"
    using assms(1) by (rule update_version_fresh)
  have c: "count ?s1 = 0" using assms(3) by (rule update_version_count)
  show ?thesis
    unfolding add_record_message_current [OF cur]
    using assms cur c
    by (simp add: Let_def debug_report_on_buffer_sizes_def update_version_frame)
qed

text \<open>
  C8 (as amended).  In every state whose two ceilings are non-zero (\<open>__init__\<close> replaces a
  zero by the default), \<open>buffer_full\<close> returns true exactly when \<open>count \<ge> max_rows\<close>, or
  \<open>count > 0\<close> and \<open>size \<ge> max_buffer_size\<close>.  With \<open>count = 0\<close> it is false, whatever
  the size, as long as \<open>max_rows\<close> is positive.
\<close>

theorem buffer_full_iff:
  assumes "max_rows s \<noteq> 0" and "max_buffer_size s \<noteq> 0"
  shows "buffer_full s =
           Inr (count s \<ge> max_rows s \<or> (count s > 0 \<and> size_bytes s \<ge> max_buffer_size s))
         \<and> (count s = 0 \<and> 0 < max_rows s \<longrightarrow> buffer_full s = Inr False)"
  using assms by (auto simp: buffer_full_def)

theorem buffer_full_iff_witness:
  "max_rows users_buffer \<noteq> 0 \<and> max_buffer_size users_buffer \<noteq> 0
   \<and> count users_buffer = 0 \<and> 0 < max_rows users_buffer
   \<and> buffer_full users_buffer = Inr False
   \<and> buffer_full (users_buffer\<lparr> count := 3, size_bytes := 104857600 \<rparr>) = Inr True"
  using buffer_full_iff [of users_buffer]
        buffer_full_iff [of "users_buffer\<lparr> count := 3, size_bytes := 104857600 \<rparr>"]
  by (simp add: stream_defs)

text \<open>
  The claim as stated fails for a negative \<open>max_rows\<close>, which \<open>max_rows or DEFAULT\<close> keeps:
  the freshly built buffer is empty and already full.
\<close>

theorem buffer_full_empty_counterexample:
  "count (BufferedSingerStream_init ''users'' requires_id [''id''] None None (Some (- 1)) None) = 0
   \<and> buffer_full (BufferedSingerStream_init ''users'' requires_id [''id''] None None (Some (- 1)) None)
       = Inr True"
  by (simp add: stream_defs buffer_full_def)

text \<open>
  C9.  A record message whose version is below \<open>lifetime_max_version\<close> is dropped: the call
  returns without raising, only the warning is logged, and \<open>count\<close>, \<open>size\<close> and the
  buffered records are what they were before the call.
\<close>

theorem stale_version_dropped:
  assumes "rm_version m = Some v" and "lifetime_max_version s = Some l" and "v < l"
  shows "add_record_message get_size s m =
           (s\<lparr> logged := logged s @ [LogVersionMismatch (stream s) (Some l) (Some v)] \<rparr>, None)
         \<and> count (fst (add_record_message get_size s m)) = count s
         \<and> size_bytes (fst (add_record_message get_size s m)) = size_bytes s
         \<and> buffer (fst (add_record_message get_size s m)) = buffer s"
  using assms by (simp add: add_record_message_def update_version_def)

theorem stale_version_dropped_witness:
  "rm_version (record_msg (JDict [(''id'', JInt 2)]) (Some 9)) = Some 9
   \<and> lifetime_max_version users_v10 = Some 10 \<and> (9::int) < 10
   \<and> count (fst (add_record_message (\<lambda>_. 64) users_v10
                     (record_msg (JDict [(''id'', JInt 2)]) (Some 9)))) = 1
   \<and> size_bytes (fst (add_record_message (\<lambda>_. 64) users_v10
                     (record_msg (JDict [(''id'', JInt 2)]) (Some 9)))) = 64
   \<and> buffer (fst (add_record_message (\<lambda>_. 64) users_v10
                     (record_msg (JDict [(''id'', JInt 2)]) (Some 9))))
        = [record_msg (JDict [(''id'', JInt 1)]) (Some 10)]"
  using stale_version_dropped [of "record_msg (JDict [(''id'', JInt 2)]) (Some 9)" 9 users_v10 10
          "\<lambda>_. 64"]
  by (simp add: users_v10_fields record_msg_def)

text \<open>
  C10.  A call with a record message that carries a version leaves \<open>lifetime_max_version\<close>
  set; and once it is set, a record message without a version is dropped: it is neither
  buffered nor validated (\<open>invalid_records\<close> is unchanged), and \<open>count\<close> and \<open>size\<close> are
  unchanged.
\<close>

theorem no_version_dropped:
  "(rm_version m0 = Some v \<longrightarrow>
      lifetime_max_version (fst (add_record_message get_size s0 m0)) \<noteq> None)
   \<and> (lifetime_max_version s \<noteq> None \<and> rm_version m = None \<longrightarrow>
        add_record_message get_size s m =
          (s\<lparr> logged := logged s @ [LogVersionMismatch (stream s) (lifetime_max_version s) None] \<rparr>,
           None)
        \<and> buffer (fst (add_record_message get_size s m)) = buffer s
        \<and> count (fst (add_record_message get_size s m)) = count s
        \<and> size_bytes (fst (add_record_message get_size s m)) = size_bytes s
        \<and> invalid_records (fst (add_record_message get_size s m)) = invalid_records s)"
proof (intro conjI impI)
  assume v: "rm_version m0 = Some v"
  have "lifetime_max_version (update_version s0 (Some v)) \<noteq> None"
    by (simp add: update_version_def flush_buffer_def Let_def split: option.splits)
  then show "lifetime_max_version (fst (add_record_message get_size s0 m0)) \<noteq> None"
    using v by (simp add: add_record_message_def Let_def debug_report_frame split: option.splits)
next
  assume a: "lifetime_max_version s \<noteq> None \<and> rm_version m = None"
  then show eq: "add_record_message get_size s m =
          (s\<lparr> logged := logged s @ [LogVersionMismatch (stream s) (lifetime_max_version s) None] \<rparr>,
           None)"
    by (simp add: add_record_message_def update_version_def)
  show "buffer (fst (add_record_message get_size s m)) = buffer s"
    "count (fst (add_record_message get_size s m)) = count s"
    "size_bytes (fst (add_record_message get_size s m)) = size_bytes s"
    "invalid_records (fst (add_record_message get_size s m)) = invalid_records s"
    by (simp_all add: eq)
qed

theorem no_version_dropped_witness:
  "rm_version (record_msg (JDict [(''id'', JInt 1)]) (Some 10)) = Some 10
   \<and> lifetime_max_version users_v10 \<noteq> None
   \<and> rm_version (record_msg (JDict [(''name'', JStr ''A'')]) None) = None
   \<and> snd (add_record_message (\<lambda>_. 64) users_v10 (record_msg (JDict [(''name'', JStr ''A'')]) None))
        = None
   \<and> buffer (fst (add_record_message (\<lambda>_. 64) users_v10
                      (record_msg (JDict [(''name'', JStr ''A'')]) None)))
        = [record_msg (JDict [(''id'', JInt 1)]) (Some 10)]
   \<and> count (fst (add_record_message (\<lambda>_. 64) users_v10
                      (record_msg (JDict [(''name'', JStr ''A'')]) None))) = 1
   \<and> size_bytes (fst (add_record_message (\<lambda>_. 64) users_v10
                      (record_msg (JDict [(''name'', JStr ''A'')]) None))) = 64
   \<and> invalid_records (fst (add_record_message (\<lambda>_. 64) users_v10
                      (record_msg (JDict [(''name'', JStr ''A'')]) None))) = []"
  using no_version_dropped [of "record_msg (JDict [(''id'', JInt 1)]) (Some 10)" 10 "\<lambda>_. 64"
          users_buffer users_v10 "record_msg (JDict [(''name'', JStr ''A'')]) None"]
  by (simp add: users_v10_fields record_msg_def users_v10_def [symmetric])

text \<open>
  C3.  Let the record message carry the integer version \<open>v\<close>.  If \<open>lifetime_max_version\<close> is
  unset or below \<open>v\<close>, the buffer is flushed first (with the warning that gives the number
  of dropped records when there are any) and \<open>lifetime_max_version\<close> becomes \<open>v\<close>; the
  record is then processed as on that flushed buffer: a valid record is the only one
  buffered, an invalid one is appended to \<open>invalid_records\<close>.  If \<open>v\<close> is below
  \<open>lifetime_max_version\<close>, the record is dropped with a warning and nothing else changes.
\<close>

theorem add_record_message_version:
  assumes "rm_version m = Some v"
  shows "((lifetime_max_version s = None \<or> (\<exists>l. lifetime_max_version s = Some l \<and> l < v)) \<longrightarrow>
            (let dropped = (if count s \<noteq> 0
                            then [LogDroppingRecords (stream s) (count s) (lifetime_max_version s) v]
                            else []);
                 s0 = s\<lparr> logged := logged s @ dropped @ [LogFlushing (stream s)],
                         buffer := [], size_bytes := 0, count := 0, lifetime_max_version := Some v \<rparr>;
                 s' = fst (add_record_message get_size s m)
             in add_record_message get_size s m = add_record_message get_size s0 m
                \<and> lifetime_max_version s' = Some v
                \<and> (\<exists>rest. logged s' = logged s0 @ rest)
                \<and> (validator s (rm_record m) = None \<longrightarrow>
                      buffer s' = [m] \<and> count s' = 1 \<and> size_bytes s' = get_size m
                      \<and> invalid_records s' = invalid_records s)
                \<and> (\<forall>e. validator s (rm_record m) = Some e \<longrightarrow>
                      buffer s' = [] \<and> count s' = 0 \<and> size_bytes s' = 0
                      \<and> invalid_records s' = invalid_records s @ [(e, m)])))
         \<and> (\<forall>l. lifetime_max_version s = Some l \<and> v < l \<longrightarrow>
              add_record_message get_size s m =
                (s\<lparr> logged := logged s @ [LogVersionMismatch (stream s) (Some l) (Some v)] \<rparr>, None))"
proof (intro conjI impI allI)
  fix l assume "lifetime_max_version s = Some l \<and> v < l"
  with assms show "add_record_message get_size s m =
      (s\<lparr> logged := logged s @ [LogVersionMismatch (stream s) (Some l) (Some v)] \<rparr>, None)"
    by (simp add: add_record_message_def update_version_def)
next
  assume newer: "lifetime_max_version s = None \<or> (\<exists>l. lifetime_max_version s = Some l \<and> l < v)"
  define s0 where "s0 = s\<lparr> logged := logged s @
                  (if count s \<noteq> 0
                   then [LogDroppingRecords (stream s) (count s) (lifetime_max_version s) v]
                   else []) @ [LogFlushing (stream s)],
               buffer := [], size_bytes := 0, count := 0, lifetime_max_version := Some v \<rparr>"
  have u: "update_version s (Some v) = s0"
    unfolding s0_def by (rule update_version_newer [OF newer])
  have u0: "update_version s0 (Some v) = s0"
    by (rule update_version_current [where l = v]) (simp_all add: s0_def)
  have cur: "lifetime_max_version (update_version s (rm_version m)) = rm_version m"
    using assms u by (simp add: s0_def)
  have cur0: "lifetime_max_version (update_version s0 (rm_version m)) = rm_version m"
    using assms u0 by (simp add: s0_def)
  have f0: "validator s0 = validator s" "invalid_records s0 = invalid_records s"
    "invalid_records_detect s0 = invalid_records_detect s"
    "invalid_records_threshold s0 = invalid_records_threshold s"
    "buffer s0 = []" "count s0 = 0" "size_bytes s0 = 0" "lifetime_max_version s0 = Some v"
    by (simp_all add: s0_def)
  have same: "add_record_message get_size s m = add_record_message get_size s0 m"
    unfolding add_record_message_current [OF cur] add_record_message_current [OF cur0]
    using assms u u0 by (auto simp: f0 Let_def split: option.splits)
  have valid: "validator s (rm_record m) = None \<Longrightarrow>
      add_record_message get_size s m =
        debug_report_on_buffer_sizes (s0\<lparr> buffer := [m], size_bytes := get_size m, count := 1 \<rparr>)"
    unfolding add_record_message_current [OF cur] using assms u by (simp add: f0)
  have invalid: "\<And>e. validator s (rm_record m) = Some e \<Longrightarrow>
      fst (add_record_message get_size s m) =
        fst (debug_report_on_buffer_sizes (s0\<lparr> invalid_records := invalid_records s @ [(e, m)] \<rparr>))
      \<or> fst (add_record_message get_size s m) = s0\<lparr> invalid_records := invalid_records s @ [(e, m)] \<rparr>"
    unfolding add_record_message_current [OF cur] using assms u by (simp add: f0 Let_def)
  have lmv: "lifetime_max_version (fst (add_record_message get_size s m)) = Some v"
  proof (cases "validator s (rm_record m)")
    case None
    then show ?thesis using valid by (simp add: debug_report_frame f0)
  next
    case (Some e)
    then show ?thesis using invalid [OF Some] by (auto simp: debug_report_frame f0)
  qed
  have lg: "\<exists>rest. logged (fst (add_record_message get_size s m)) = logged s0 @ rest"
  proof (cases "validator s (rm_record m)")
    case None
    then show ?thesis
      using valid debug_report_logged [of "s0\<lparr> buffer := [m], size_bytes := get_size m, count := 1 \<rparr>"]
      by simp
  next
    case (Some e)
    then show ?thesis
      using invalid [OF Some]
        debug_report_logged [of "s0\<lparr> invalid_records := invalid_records s @ [(e, m)] \<rparr>"]
      by auto
  qed
  have v1: "validator s (rm_record m) = None \<longrightarrow>
       buffer (fst (add_record_message get_size s m)) = [m]
       \<and> count (fst (add_record_message get_size s m)) = 1
       \<and> size_bytes (fst (add_record_message get_size s m)) = get_size m
       \<and> invalid_records (fst (add_record_message get_size s m)) = invalid_records s"
    using valid by (simp add: debug_report_frame f0)
  have v2: "\<forall>e. validator s (rm_record m) = Some e \<longrightarrow>
       buffer (fst (add_record_message get_size s m)) = []
       \<and> count (fst (add_record_message get_size s m)) = 0
       \<and> size_bytes (fst (add_record_message get_size s m)) = 0
       \<and> invalid_records (fst (add_record_message get_size s m)) = invalid_records s @ [(e, m)]"
    using invalid by (auto simp: debug_report_frame f0)
  show "let dropped = (if count s \<noteq> 0
                            then [LogDroppingRecords (stream s) (count s) (lifetime_max_version s) v]
                            else []);
                 s0 = s\<lparr> logged := logged s @ dropped @ [LogFlushing (stream s)],
                         buffer := [], size_bytes := 0, count := 0, lifetime_max_version := Some v \<rparr>;
                 s' = fst (add_record_message get_size s m)
             in add_record_message get_size s m = add_record_message get_size s0 m
                \<and> lifetime_max_version s' = Some v
                \<and> (\<exists>rest. logged s' = logged s0 @ rest)
                \<and> (validator s (rm_record m) = None \<longrightarrow>
                      buffer s' = [m] \<and> count s' = 1 \<and> size_bytes s' = get_size m
                      \<and> invalid_records s' = invalid_records s)
                \<and> (\<forall>e. validator s (rm_record m) = Some e \<longrightarrow>
                      buffer s' = [] \<and> count s' = 0 \<and> size_bytes s' = 0
                      \<and> invalid_records s' = invalid_records s @ [(e, m)])"
    unfolding Let_def s0_def [symmetric]
    using same lmv lg v1 v2 by blast
qed

theorem add_record_message_version_witness:
  "rm_version (record_msg (JDict [(''id'', JInt 3)]) (Some 11)) = Some 11
   \<and> lifetime_max_version users_v10 = Some 10 \<and> (10::int) < 11
   \<and> validator users_v10 (JDict [(''id'', JInt 3)]) = None
   \<and> buffer (fst (add_record_message (\<lambda>_. 64) users_v10
                     (record_msg (JDict [(''id'', JInt 3)]) (Some 11))))
        = [record_msg (JDict [(''id'', JInt 3)]) (Some 11)]
   \<and> count (fst (add_record_message (\<lambda>_. 64) users_v10
                     (record_msg (JDict [(''id'', JInt 3)]) (Some 11)))) = 1
   \<and> lifetime_max_version (fst (add_record_message (\<lambda>_. 64) users_v10
                     (record_msg (JDict [(''id'', JInt 3)]) (Some 11)))) = Some 11
   \<and> rm_version (record_msg (JDict [(''id'', JInt 2)]) (Some 9)) = Some 9 \<and> (9::int) < 10
   \<and> buffer (fst (add_record_message (\<lambda>_. 64) users_v10
                     (record_msg (JDict [(''id'', JInt 2)]) (Some 9))))
        = [record_msg (JDict [(''id'', JInt 1)]) (Some 10)]"
  using add_record_message_version [of "record_msg (JDict [(''id'', JInt 3)]) (Some 11)" 11
          users_v10 "\<lambda>_. 64"]
        add_record_message_version [of "record_msg (JDict [(''id'', JInt 2)]) (Some 9)" 9
          users_v10 "\<lambda>_. 64"]
  by (simp add: users_v10_fields record_msg_def Let_def users_v10_def stream_defs
        add_record_message_def update_version_def flush_buffer_def debug_report_on_buffer_sizes_def)

text \<open>
  C5 (as amended).  A record that is not dropped for its version and fails validation is
  appended to \<open>invalid_records\<close>, and \<open>SingerStreamError\<close> is raised exactly when
  \<open>invalid_records_detect\<close> holds and the number of accumulated invalid records is at
  least the threshold; its payload is the accumulated list, and the buffer is not
  touched.  With detection on and a threshold of 2, consecutive invalid records raise at
  the second one, with the two validation errors seen so far, whatever follows.  The
  default threshold is 0.
\<close>

theorem invalid_record_threshold:
  "(lifetime_max_version (update_version s (rm_version m)) = rm_version m
      \<and> validator s (rm_record m) = Some err \<longrightarrow>
      (let r = add_record_message get_size s m
       in invalid_records (fst r) = invalid_records s @ [(err, m)]
          \<and> ((\<exists>t p. snd r = Some (SingerStreamError t p)) \<longleftrightarrow>
               (invalid_records_detect s
                \<and> int (length (invalid_records s)) + 1 \<ge> invalid_records_threshold s))
          \<and> (\<forall>t p. snd r = Some (SingerStreamError t p) \<longrightarrow>
                t = invalid_records_threshold s \<and> p = invalid_records s @ [(err, m)])
          \<and> buffer (fst r) = buffer (update_version s (rm_version m))
          \<and> count (fst r) = count (update_version s (rm_version m))
          \<and> size_bytes (fst r) = size_bytes (update_version s (rm_version m))))
   \<and> (validate (rm_record m1) = Some e1 \<and> validate (rm_record m2) = Some e2
        \<and> rm_version m1 = rm_version m2 \<longrightarrow>
        snd (add_record_messages get_size
               (BufferedSingerStream_init name validate keys (Some True) (Some 2) None None)
               (m1 # m2 # rest))
          = Some (SingerStreamError 2 [(e1, m1), (e2, m2)]))
   \<and> invalid_records_threshold (BufferedSingerStream_init name validate keys detect None rows bytes) = 0"
proof (intro conjI impI)
  assume a: "lifetime_max_version (update_version s (rm_version m)) = rm_version m
      \<and> validator s (rm_record m) = Some err"
  then have cur: "lifetime_max_version (update_version s (rm_version m)) = rm_version m"
    and inv: "validator s (rm_record m) = Some err" by simp_all
  show "let r = add_record_message get_size s m
       in invalid_records (fst r) = invalid_records s @ [(err, m)]
          \<and> ((\<exists>t p. snd r = Some (SingerStreamError t p)) \<longleftrightarrow>
               (invalid_records_detect s
                \<and> int (length (invalid_records s)) + 1 \<ge> invalid_records_threshold s))
          \<and> (\<forall>t p. snd r = Some (SingerStreamError t p) \<longrightarrow>
                t = invalid_records_threshold s \<and> p = invalid_records s @ [(err, m)])
          \<and> buffer (fst r) = buffer (update_version s (rm_version m))
          \<and> count (fst r) = count (update_version s (rm_version m))
          \<and> size_bytes (fst r) = size_bytes (update_version s (rm_version m))"
    unfolding add_record_message_current [OF cur]
    using inv by (simp add: Let_def debug_report_frame debug_report_error)
next
  assume b: "validate (rm_record m1) = Some e1 \<and> validate (rm_record m2) = Some e2
        \<and> rm_version m1 = rm_version m2"
  let ?s = "BufferedSingerStream_init name validate keys (Some True) (Some 2) None None"
  obtain s' where s': "add_record_message get_size ?s m1 = (s', None)"
      "invalid_records s' = [(e1, m1)]" "lifetime_max_version s' = rm_version m1"
      "validator s' = validate" "invalid_records_threshold s' = 2" "invalid_records_detect s'"
    using first_invalid_tolerated [of ?s m1 e1 get_size] b by (auto simp: init_fields)
  have u: "update_version s' (rm_version m2) = s'"
    using s'(3) b by (simp add: update_version_same)
  have cur: "lifetime_max_version (update_version s' (rm_version m2)) = rm_version m2"
    using u s'(3) b by simp
  have "snd (add_record_message get_size s' m2) = Some (SingerStreamError 2 [(e1, m1), (e2, m2)])"
    unfolding add_record_message_current [OF cur] using s' b u by (simp add: Let_def)
  then show "snd (add_record_messages get_size ?s (m1 # m2 # rest))
          = Some (SingerStreamError 2 [(e1, m1), (e2, m2)])"
    using s'(1) by (auto split: prod.splits option.splits)
next
  show "invalid_records_threshold (BufferedSingerStream_init name validate keys detect None rows bytes) = 0"
    by (simp add: init_fields)
qed

theorem invalid_record_threshold_witness:
  "requires_id (rm_record (record_msg (JDict [(''name'', JStr ''A'')]) None))
       = Some (ValidationError ''id is a required property'')
   \<and> requires_id (rm_record (record_msg (JDict [(''name'', JStr ''B'')]) None))
       = Some (ValidationError ''id is a required property'')
   \<and> snd (add_record_messages (\<lambda>_. 64) strict_users
            [record_msg (JDict [(''name'', JStr ''A'')]) None,
             record_msg (JDict [(''name'', JStr ''B'')]) None])
       = Some (SingerStreamError 2
           [(ValidationError ''id is a required property'', record_msg (JDict [(''name'', JStr ''A'')]) None),
            (ValidationError ''id is a required property'', record_msg (JDict [(''name'', JStr ''B'')]) None)])
   \<and> lifetime_max_version (update_version strict_users None) = None
   \<and> invalid_records (fst (add_record_message (\<lambda>_. 64) strict_users
        (record_msg (JDict [(''name'', JStr ''A'')]) None)))
       = [(ValidationError ''id is a required property'', record_msg (JDict [(''name'', JStr ''A'')]) None)]
   \<and> snd (add_record_message (\<lambda>_. 64) strict_users
        (record_msg (JDict [(''name'', JStr ''A'')]) None)) = None"
  using invalid_record_threshold [of strict_users "record_msg (JDict [(''name'', JStr ''A'')]) None"
          "ValidationError ''id is a required property''" "\<lambda>_. 64" requires_id
          "record_msg (JDict [(''name'', JStr ''A'')]) None"
          "ValidationError ''id is a required property''"
          "record_msg (JDict [(''name'', JStr ''B'')]) None"
          "ValidationError ''id is a required property''"
          "''users''" "[''id'']" "[]" None None None]
  by (simp add: strict_users_def record_msg_def requires_id_def Let_def
        add_record_message_def update_version_def flush_buffer_def debug_report_on_buffer_sizes_def
        BufferedSingerStream_init_def or_default_def DEFAULT__MAX_ROWS_def DEFAULT__MAX_BUFFER_SIZE_def)

text \<open>
  The claim as stated fails: of three invalid records fed with a threshold of 2, the second
  raises, with two errors in the payload, and the third is never processed.
\<close>

theorem invalid_record_threshold_counterexample:
  "snd (add_record_messages (\<lambda>_. 64) strict_users
            [record_msg (JDict [(''name'', JStr ''A'')]) None,
             record_msg (JDict [(''name'', JStr ''B'')]) None,
             record_msg (JDict [(''name'', JStr ''C'')]) None])
       = Some (SingerStreamError 2
           [(ValidationError ''id is a required property'', record_msg (JDict [(''name'', JStr ''A'')]) None),
            (ValidationError ''id is a required property'', record_msg (JDict [(''name'', JStr ''B'')]) None)])"
  by (simp add: strict_users_def record_msg_def requires_id_def Let_def
        add_record_message_def update_version_def flush_buffer_def debug_report_on_buffer_sizes_def
        BufferedSingerStream_init_def or_default_def DEFAULT__MAX_ROWS_def DEFAULT__MAX_BUFFER_SIZE_def)

section \<open>Properties of the record denester\<close>

lemmas denest_eval = get_streamed_table_records_def record_pk_fks_of_def py_items_def
  py_getitem_def py_setitem_def py_contains_def next_path_of_def SEPARATOR_def
  SINGER_SEQUENCE_def SINGER_SOURCE_PK_PREFIX_def

lemma subrecord_loop_object_raises:
  "(q, JDict d') \<in> set items \<Longrightarrow>
     denest_subrecord_loop n tn cp parent items rm kp pk lvl \<noteq> (items', parent', rm', None)"
proof (induction items arbitrary: parent rm items' parent' rm')
  case Nil
  then show ?case by simp
next
  case (Cons a items)
  obtain p' v where a: "a = (p', v)" by (cases a)
  show ?case
  proof (cases "a = (q, JDict d')")
    case True
    then show ?thesis by simp
  next
    case False
    then have "(q, JDict d') \<in> set items" using Cons.prems by simp
    then have "\<And>parent rm items' parent' rm'.
        denest_subrecord_loop n tn cp parent items rm kp pk lvl \<noteq> (items', parent', rm', None)"
      using Cons.IH by blast
    then show ?thesis
      unfolding a by (auto split: json.splits prod.splits option.splits) (metis not_None_eq)+
  qed
qed

lemma record_loop_object_raises:
  "(p, JDict d) \<in> set items \<Longrightarrow> (q, JDict d') \<in> set d \<Longrightarrow>
     denest_record_loop n tn cp items den rm kp pk lvl \<noteq> (items', den', rm', None)"
proof (induction items arbitrary: den rm items' den' rm')
  case Nil
  then show ?case by simp
next
  case (Cons a items)
  obtain p' v where a: "a = (p', v)" by (cases a)
  show ?case
  proof (cases "a = (p, JDict d)")
    case True
    have "\<And>x y z. denest_subrecord n tn (next_path_of cp p) den d rm kp pk lvl \<noteq> (x, y, z, None)"
      using subrecord_loop_object_raises [OF Cons.prems(2)] by (cases n) auto
    then show ?thesis using True by (auto split: prod.splits option.splits)
  next
    case False
    then have "(p, JDict d) \<in> set items" using Cons.prems(1) by simp
    then have "\<And>den rm items' den' rm'.
        denest_record_loop n tn cp items den rm kp pk lvl \<noteq> (items', den', rm', None)"
      using Cons.IH Cons.prems(2) by blast
    then show ?thesis
      unfolding a by (auto split: json.splits prod.splits option.splits) (metis not_None_eq)+
  qed
qed

lemma record_object_raises:
  "(p, JDict d) \<in> set items \<Longrightarrow> (q, JDict d') \<in> set d \<Longrightarrow>
     denest_record n tn cp (JDict items) rm kp pk lvl \<noteq> (record', rm', None)"
  using record_loop_object_raises [of p d items q d' "n - 1" tn cp "[]" rm kp pk lvl]
  by (cases n) (auto simp: py_items_def split: prod.splits option.splits)

lemma record_pk_fks_of_top:
  "record_pk_fks_of record kp None lvl ri = Inr (record1, fks, ri') \<Longrightarrow> record1 = record"
  by (auto simp: record_pk_fks_of_def split: sum.splits bool.splits if_splits)

lemma records_loop_object_raises:
  "JDict items \<in> set records \<Longrightarrow> (p, JDict d) \<in> set items \<Longrightarrow> (q, JDict d') \<in> set d \<Longrightarrow>
     denest_records_loop n tn records rm kp None lvl ri \<noteq> (records', rm', None)"
proof (induction records arbitrary: rm ri records' rm')
  case Nil
  then show ?case by simp
next
  case (Cons a records)
  show ?case
  proof (cases "a = JDict items")
    case True
    have "\<And>rm pk x y. denest_record n tn None (JDict items) rm kp pk lvl \<noteq> (x, y, None)"
      using record_object_raises [OF Cons.prems(2,3)] by blast
    then show ?thesis
      using True
      by (auto split: sum.splits prod.splits option.splits dest!: record_pk_fks_of_top)
  next
    case False
    then have "JDict items \<in> set records" using Cons.prems(1) by simp
    then have "\<And>rm ri records' rm'.
        denest_records_loop n tn records rm kp None lvl ri \<noteq> (records', rm', None)"
      using Cons.IH Cons.prems(2,3) by blast
    then show ?thesis
      by (auto split: sum.splits prod.splits option.splits) (metis not_None_eq)+
  qed
qed

text \<open>
  C4 (the code fails it).  Whenever a record holds an object-valued property that itself
  holds an object-valued property, denesting does not complete: it ends in an exception
  (the \<open>TypeError\<close> of the six-argument call, unless an earlier record or property
  raised first), and no row is produced.
\<close>

theorem nested_object_raises:
  "(p, JDict d) \<in> set items \<and> (q, JDict d') \<in> set d \<and> JDict items \<in> set records \<longrightarrow>
     (\<exists>e. get_streamed_table_records depth root_table_name key_props records = Inl e)"
proof
  assume a: "(p, JDict d) \<in> set items \<and> (q, JDict d') \<in> set d \<and> JDict items \<in> set records"
  then have "\<And>x y. denest_records depth root_table_name records [] key_props None (- 1) \<noteq> (x, y, None)"
    using records_loop_object_raises [of items records p d q d'] by (cases depth) auto
  then show "\<exists>e. get_streamed_table_records depth root_table_name key_props records = Inl e"
    by (auto simp: get_streamed_table_records_def split: prod.splits option.splits)
qed

theorem nested_object_raises_witness:
  "get_streamed_table_records 1000 ''users'' [''id'']
     [JDict [(''id'', JInt 7), (''a'', JDict [(''b'', JDict [(''c'', JInt 1)])])]] = Inl TypeError"
  using nested_object_raises [of "''a''" "[(''b'', JDict [(''c'', JInt 1)])]"
          "[(''id'', JInt 7), (''a'', JDict [(''b'', JDict [(''c'', JInt 1)])])]"
          "''b''" "[(''c'', JInt 1)]"
          "[JDict [(''id'', JInt 7), (''a'', JDict [(''b'', JDict [(''c'', JInt 1)])])]]"
          1000 "''users''" "[''id'']"]
  by (simp add: denest_eval numeral_eq_Suc)

text \<open>
  C7 (the code fails it).  A null at the top level of a record leaves no key in the row
  (\<open>n\<close> below), but a null inside an object-valued property is written to the row under
  its flattened key, bound to null (\<open>a__b\<close> below).
\<close>

theorem nested_null_bound:
  "get_streamed_table_records 1000 ''users'' [''id'']
     [JDict [(''id'', JInt 7), (''a'', JDict [(''b'', JNull), (''c'', JInt 1)]), (''n'', JNull)]]
   = Inr [(''users'', [[(''id'', JInt 7), (''a__b'', JNull), (''a__c'', JInt 1)]])]"
  by (simp add: denest_eval numeral_eq_Suc)

section \<open>Properties of the schema upserter\<close>









section \<open>Properties of the batch writer\<close>










end
